theory Spec2Isabelle
  imports Main "HOL-Library.Word" "HOL-Library.Sublist" "HOL-Library.Monad_Syntax"
begin

unbundle bit_operations_syntax

section \<open>The configuration schema (internal/config/config.go)\<close>

text \<open>
  Go's \<^verbatim>\<open>int\<close> fields are modelled as \<^typ>\<open>int\<close>: the package only copies and
  compares them, so no arithmetic can wrap. Go strings are byte sequences, here
  \<^typ>\<open>string\<close>.

  A \<^verbatim>\<open>float64\<close> is its IEEE 754 binary64 bit pattern: bit 63 is the sign, bits 62..52
  the exponent, bits 51..0 the fraction. The package only copies floats and compares
  them with the constants 0, 0.0 and 1.0, so the comparisons are defined on the bit
  pattern (NaN compares unequal to and unordered with everything, and the two zeros
  compare equal).
\<close>

type_synonym float64 = "64 word"

definition f64_mag :: "float64 \<Rightarrow> 64 word" where
  "f64_mag x = x AND 0x7FFFFFFFFFFFFFFF"

definition f64_neg :: "float64 \<Rightarrow> bool" where
  "f64_neg x = (0x8000000000000000 \<le> x)"

definition f64_isNaN :: "float64 \<Rightarrow> bool" where
  "f64_isNaN x = (0x7FF0000000000000 < f64_mag x)"

text \<open>Go's \<^verbatim>\<open>x == y\<close>, \<^verbatim>\<open>x != y\<close>, \<^verbatim>\<open>x < y\<close> and \<^verbatim>\<open>x > y\<close> on float64 operands.\<close>

definition f64_eq :: "float64 \<Rightarrow> float64 \<Rightarrow> bool" where
  "f64_eq x y =
     (if f64_isNaN x then False
      else if f64_isNaN y then False
      else if f64_mag x = 0 then f64_mag y = 0
      else x = y)"

definition f64_ne :: "float64 \<Rightarrow> float64 \<Rightarrow> bool" where
  "f64_ne x y = (if f64_eq x y then False else True)"

definition f64_lt :: "float64 \<Rightarrow> float64 \<Rightarrow> bool" where
  "f64_lt x y =
     (if f64_isNaN x then False
      else if f64_isNaN y then False
      else if f64_neg x then
        (if f64_neg y then f64_mag y < f64_mag x
         else if f64_mag x = 0 then 0 < f64_mag y
         else True)
      else
        (if f64_neg y then False else f64_mag x < f64_mag y))"

definition f64_gt :: "float64 \<Rightarrow> float64 \<Rightarrow> bool" where
  "f64_gt x y = f64_lt y x"

text \<open>The float literals of the source: 0 and 0.0, 1.0, and the default 0.85; 1.5 is
  the out-of-range threshold of the specification's example.\<close>

definition f64_0 :: float64 where "f64_0 = 0x0000000000000000"
definition f64_1 :: float64 where "f64_1 = 0x3FF0000000000000"
definition f64_0_85 :: float64 where "f64_0_85 = 0x3FEB333333333333"
definition f64_1_5 :: float64 where "f64_1_5 = 0x3FF8000000000000"

record ServiceConfig =
  Timeout :: int
  RetryAttempts :: int
  SocketPath :: string

record LoggingConfig =
  Level :: string
  Format :: string

record AudioConfig =
  Enabled :: bool
  Volume :: int
  CustomSoundSuccess :: string
  CustomSoundFailure :: string

record SecurityConfig =
  LivenessRequired :: bool
  MatchThreshold :: float64
  MaxAuthAttempts :: int
  LockoutDuration :: int

record Config =
  Service :: ServiceConfig
  Logging :: LoggingConfig
  Audio :: AudioConfig
  Security :: SecurityConfig

definition systemConfigPath :: string where
  "systemConfigPath = ''/etc/linux-wave/config.yaml''"

definition userConfigRelPath :: string where
  "userConfigRelPath = ''.config/linux-wave/config.yaml''"

text \<open>\<^verbatim>\<open>&Config{}\<close>: every field at the zero value of its type.\<close>

definition zeroConfig :: Config where
  "zeroConfig =
     \<lparr>Service = \<lparr>Timeout = 0, RetryAttempts = 0, SocketPath = ''''\<rparr>,
      Logging = \<lparr>Level = '''', Format = ''''\<rparr>,
      Audio = \<lparr>Enabled = False, Volume = 0, CustomSoundSuccess = '''',
               CustomSoundFailure = ''''\<rparr>,
      Security = \<lparr>LivenessRequired = False, MatchThreshold = f64_0,
                  MaxAuthAttempts = 0, LockoutDuration = 0\<rparr>\<rparr>"

definition DefaultConfig :: Config where
  "DefaultConfig =
     \<lparr>Service = \<lparr>Timeout = 10, RetryAttempts = 3,
                 SocketPath = ''/run/linux-wave/auth.sock''\<rparr>,
      Logging = \<lparr>Level = ''INFO'', Format = ''test''\<rparr>,
      Audio = \<lparr>Enabled = True, Volume = 50, CustomSoundSuccess = '''',
               CustomSoundFailure = ''''\<rparr>,
      Security = \<lparr>LivenessRequired = True, MatchThreshold = f64_0_85,
                  MaxAuthAttempts = 3, LockoutDuration = 300\<rparr>\<rparr>"

section \<open>Errors\<close>

text \<open>
  An error value is built by \<^verbatim>\<open>errors.New\<close> (or by \<^verbatim>\<open>fmt.Errorf\<close> with no \<^verbatim>\<open>%w\<close>
  verb: only its message), by \<^verbatim>\<open>fmt.Errorf("prefix: %w", err)\<close>, which wraps an
  error behind a prefix, or by \<^verbatim>\<open>errors.Join\<close>. \<open>Error\<close> is the message: a
  joined error prints its parts separated by newlines.
\<close>

datatype go_error =
    New string
  | Errorf string go_error
  | Join "go_error list"

text \<open>\<^verbatim>\<open>strings.Join(elems, sep)\<close>.\<close>

fun strings_Join :: "string list \<Rightarrow> string \<Rightarrow> string" where
  "strings_Join [] sep = []"
| "strings_Join [m] sep = m"
| "strings_Join (m # n # ms) sep = m @ sep @ strings_Join (n # ms) sep"

fun Error :: "go_error \<Rightarrow> string" where
  "Error (New m) = m"
| "Error (Errorf p e) = p @ Error e"
| "Error (Join es) = strings_Join (map Error es) [CHR 0x0A]"

section \<open>The host: filesystem, environment and library functions\<close>

text \<open>
  What the package reads from outside itself is a parameter of the model:
  \<^item> \<open>Stat p\<close>: \<^verbatim>\<open>os.Stat(p)\<close> returns a nil error (the code reads nothing else of it);
  \<^item> \<open>ReadFile p\<close>: \<^verbatim>\<open>os.ReadFile(p)\<close>;
  \<^item> \<open>UserHomeDir\<close>: \<^verbatim>\<open>os.UserHomeDir()\<close>;
  \<^item> \<open>LookupEnv\<close>: the process environment (\<open>None\<close> for an unset variable);
  \<^item> \<open>Unmarshal data cfg\<close>: \<^verbatim>\<open>yaml.Unmarshal(data, cfg)\<close>, returning the destination
    as the decoder leaves it;
  \<^item> \<open>MapToUpper\<close>, \<open>MapToLower\<close>: the Unicode case mappings that
    \<^verbatim>\<open>strings.ToUpper\<close> and \<^verbatim>\<open>strings.ToLower\<close> apply to a string that is not pure
    ASCII.
\<close>

record world =
  Stat :: "string \<Rightarrow> bool"
  ReadFile :: "string \<Rightarrow> go_error + string"
  UserHomeDir :: "go_error + string"
  LookupEnv :: "string \<Rightarrow> string option"
  Unmarshal :: "string \<Rightarrow> Config \<Rightarrow> go_error + Config"
  MapToUpper :: "string \<Rightarrow> string"
  MapToLower :: "string \<Rightarrow> string"

definition Getenv :: "world \<Rightarrow> string \<Rightarrow> string" where
  "Getenv w k = (case LookupEnv w k of None \<Rightarrow> [] | Some v \<Rightarrow> v)"

subsection \<open>strings\<close>

definition HasPrefix :: "string \<Rightarrow> string \<Rightarrow> bool" where
  "HasPrefix s p = (length p \<le> length s \<and> take (length p) s = p)"

definition isASCII :: "string \<Rightarrow> bool" where
  "isASCII s = list_all (\<lambda>c. (of_char c :: nat) < 128) s"

definition upper_byte :: "char \<Rightarrow> char" where
  "upper_byte c =
     (if 97 \<le> (of_char c :: nat) \<and> (of_char c :: nat) \<le> 122
      then char_of ((of_char c :: nat) - 32) else c)"

definition lower_byte :: "char \<Rightarrow> char" where
  "lower_byte c =
     (if 65 \<le> (of_char c :: nat) \<and> (of_char c :: nat) \<le> 90
      then char_of ((of_char c :: nat) + 32) else c)"

definition ToUpper :: "world \<Rightarrow> string \<Rightarrow> string" where
  "ToUpper w s = (if isASCII s then map upper_byte s else MapToUpper w s)"

definition ToLower :: "world \<Rightarrow> string \<Rightarrow> string" where
  "ToLower w s = (if isASCII s then map lower_byte s else MapToLower w s)"

subsection \<open>path/filepath (Unix)\<close>

definition IsAbs :: "string \<Rightarrow> bool" where
  "IsAbs p = HasPrefix p ''/''"

section \<open>Validate\<close>

text \<open>A \<^verbatim>\<open>map[string]bool\<close> literal; indexing a missing key yields \<^verbatim>\<open>false\<close>.\<close>

definition index_bool :: "(string \<times> bool) list \<Rightarrow> string \<Rightarrow> bool" where
  "index_bool m k = (case map_of m k of None \<Rightarrow> False | Some b \<Rightarrow> b)"

definition validLogLevels :: "(string \<times> bool) list" where
  "validLogLevels =
     [(''DEBUG'', True), (''INFO'', True), (''WARN'', True), (''ERROR'', True)]"

definition validLogFormats :: "(string \<times> bool) list" where
  "validLogFormats = [(''json'', True), (''text'', True)]"

definition err_timeout :: go_error where
  "err_timeout = New ''timeout must be between 1 and 60 seconds''"

definition err_retry_attempts :: go_error where
  "err_retry_attempts = New ''retry_attempts must be between 1 and 10''"

definition err_socket_path_empty :: go_error where
  "err_socket_path_empty = New ''socket_path must not be empty''"

definition err_socket_path_abs :: go_error where
  "err_socket_path_abs = New ''socket_path must be an absolute path''"

definition err_log_level :: go_error where
  "err_log_level = New ''log_level must be DEBUG, INFO, WARN, or ERROR''"

definition err_log_format :: go_error where
  "err_log_format = New (''log_format must be 'json' or 'text'' @ [CHR 0x27])"

definition err_audio_volume :: go_error where
  "err_audio_volume = New ''audio_volume must be between 0 and 100''"

definition err_custom_sound_success :: "string \<Rightarrow> go_error" where
  "err_custom_sound_success p = New (''custom_sound_success file not found: '' @ p)"

definition err_custom_sound_failure :: "string \<Rightarrow> go_error" where
  "err_custom_sound_failure p = New (''custom_sound_failure file not found: '' @ p)"

definition err_match_threshold :: go_error where
  "err_match_threshold = New ''match_threshold must be between 0.0 and 1.0''"

definition err_max_auth_attempts :: go_error where
  "err_max_auth_attempts = New ''max_auth_attempts must be between 1 and 20''"

definition err_lockout_duration :: go_error where
  "err_lockout_duration = New ''lockout_duration must be between 0 and 3600''"

text \<open>
  \<open>Validate\<close> appends to \<open>errs\<close> in the order of the source and returns
  \<open>None\<close> for Go's nil error.
\<close>

definition Validate :: "world \<Rightarrow> Config \<Rightarrow> go_error option" where
  "Validate w c =
    (let errs = [];
         errs = (if Timeout (Service c) \<le> 0 \<or> Timeout (Service c) > 60
                 then errs @ [err_timeout] else errs);
         errs = (if RetryAttempts (Service c) < 1 \<or> RetryAttempts (Service c) > 10
                 then errs @ [err_retry_attempts] else errs);
         errs = (if SocketPath (Service c) = [] then errs @ [err_socket_path_empty]
                 else if \<not> IsAbs (SocketPath (Service c))
                 then errs @ [err_socket_path_abs] else errs);
         errs = (if \<not> index_bool validLogLevels (ToUpper w (Level (Logging c)))
                 then errs @ [err_log_level] else errs);
         errs = (if \<not> index_bool validLogFormats (ToLower w (Format (Logging c)))
                 then errs @ [err_log_format] else errs);
         errs = (if Volume (Audio c) < 0 \<or> Volume (Audio c) > 100
                 then errs @ [err_audio_volume] else errs);
         errs = (if CustomSoundSuccess (Audio c) \<noteq> []
                 then (if \<not> Stat w (CustomSoundSuccess (Audio c))
                       then errs @ [err_custom_sound_success (CustomSoundSuccess (Audio c))]
                       else errs)
                 else errs);
         errs = (if CustomSoundFailure (Audio c) \<noteq> []
                 then (if \<not> Stat w (CustomSoundFailure (Audio c))
                       then errs @ [err_custom_sound_failure (CustomSoundFailure (Audio c))]
                       else errs)
                 else errs);
         errs = (if f64_lt (MatchThreshold (Security c)) f64_0
                      \<or> f64_gt (MatchThreshold (Security c)) f64_1
                 then errs @ [err_match_threshold] else errs);
         errs = (if MaxAuthAttempts (Security c) < 1 \<or> MaxAuthAttempts (Security c) > 20
                 then errs @ [err_max_auth_attempts] else errs);
         errs = (if LockoutDuration (Security c) < 0 \<or> LockoutDuration (Security c) > 3600
                 then errs @ [err_lockout_duration] else errs)
     in if length errs > 0 then Some (Join errs) else None)"

section \<open>Path expansion\<close>

subsection \<open>filepath.Clean and filepath.Join (Unix)\<close>

text \<open>
  \<^verbatim>\<open>filepath.Clean\<close> is modelled on the path's elements: empty and \<^verbatim>\<open>.\<close> elements
  are dropped, a \<^verbatim>\<open>..\<close> element removes the element before it, is dropped at the root
  of a rooted path and is kept at the start of a relative one. The result of a rooted
  path starts with one slash, and an empty result is \<^verbatim>\<open>.\<close>.
\<close>

fun split_slash :: "string \<Rightarrow> string list" where
  "split_slash [] = [[]]"
| "split_slash (c # cs) =
     (if c = CHR ''/'' then [] # split_slash cs
      else (case split_slash cs of
              [] \<Rightarrow> [[c]]
            | e # es \<Rightarrow> (c # e) # es))"

fun clean_elems :: "bool \<Rightarrow> string list \<Rightarrow> string list \<Rightarrow> string list" where
  "clean_elems rooted out [] = rev out"
| "clean_elems rooted out (e # es) =
     (if e = [] \<or> e = ''.'' then clean_elems rooted out es
      else if e = ''..'' then
        (case out of
           [] \<Rightarrow> if rooted then clean_elems rooted [] es
                 else clean_elems rooted [''..''] es
         | d # ds \<Rightarrow> if d = ''..'' then clean_elems rooted (''..'' # out) es
                     else clean_elems rooted ds es)
      else clean_elems rooted (e # out) es)"

definition Clean :: "string \<Rightarrow> string" where
  "Clean path =
     (if path = [] then ''.''
      else
        (let rooted = (hd path = CHR ''/'');
             out = strings_Join (clean_elems rooted [] (split_slash path)) ''/''
         in if rooted then ''/'' @ out
            else if out = [] then ''.''
            else out))"

text \<open>\<^verbatim>\<open>filepath.Join\<close> skips leading empty elements, joins the rest with slashes and
  cleans the result.\<close>

fun filepath_Join :: "string list \<Rightarrow> string" where
  "filepath_Join [] = []"
| "filepath_Join (e # es) =
     (if e \<noteq> [] then Clean (strings_Join (e # es) ''/'') else filepath_Join es)"

subsection \<open>os.ExpandEnv\<close>

definition isShellSpecialVar :: "char \<Rightarrow> bool" where
  "isShellSpecialVar c = (c \<in> set ''*#$@!?-0123456789'')"

definition isAlphaNum :: "char \<Rightarrow> bool" where
  "isAlphaNum c =
     (c = CHR ''_''
      \<or> 48 \<le> (of_char c :: nat) \<and> (of_char c :: nat) \<le> 57
      \<or> 97 \<le> (of_char c :: nat) \<and> (of_char c :: nat) \<le> 122
      \<or> 65 \<le> (of_char c :: nat) \<and> (of_char c :: nat) \<le> 90)"

text \<open>
  \<^verbatim>\<open>getShellName(s)\<close> returns the name that begins \<open>s\<close> and the number of bytes it
  takes. \<^verbatim>\<open>os.Expand\<close> calls it on a non-empty string only.
\<close>

fun getShellName :: "string \<Rightarrow> string \<times> nat" where
  "getShellName (c # cs) =
     (if c = CHR ''{'' then
        (if length (c # cs) > 2 \<and> isShellSpecialVar (cs ! 0) \<and> cs ! 1 = CHR ''}''
         then ([cs ! 0], 3)
         else
           (let name = takeWhile (\<lambda>x. x \<noteq> CHR ''}'') cs
            in if length name = length cs then ([], 1)
               else if name = [] then ([], 2)
               else (name, length name + 2)))
      else if isShellSpecialVar c then ([c], 1)
      else (takeWhile isAlphaNum (c # cs), length (takeWhile isAlphaNum (c # cs))))"

text \<open>
  \<^verbatim>\<open>os.Expand(s, mapping)\<close>: a dollar sign that is not the last byte starts a
  reference; invalid syntax is eaten, a dollar sign with no name after it stays, and a
  name is replaced by its mapping.
\<close>

fun Expand :: "(string \<Rightarrow> string) \<Rightarrow> string \<Rightarrow> string" where
  "Expand mapping [] = []"
| "Expand mapping (c # s) =
     (if c = CHR ''$'' \<and> s \<noteq> [] then
        (let name = fst (getShellName s); w = snd (getShellName s)
         in (if name = [] \<and> w > 0 then []
             else if name = [] then [c]
             else mapping name) @ Expand mapping (drop w s))
      else c # Expand mapping s)"

definition ExpandEnv :: "world \<Rightarrow> string \<Rightarrow> string" where
  "ExpandEnv w s = Expand (Getenv w) s"

subsection \<open>expandPath\<close>

definition expandPath :: "world \<Rightarrow> string \<Rightarrow> go_error + string" where
  "expandPath w path =
     (if HasPrefix path ''~'' then
        (case UserHomeDir w of
           Inl err \<Rightarrow> Inl (Errorf ''failed to get user home directory: '' err)
         | Inr homeDir \<Rightarrow> Inr (ExpandEnv w (filepath_Join [homeDir, drop 1 path])))
      else Inr (ExpandEnv w path))"

section \<open>mergeConfigs\<close>

text \<open>
  On configuration values: \<open>result\<close> starts as a copy of \<open>base\<close> and is updated
  field by field, in the order of the source.
\<close>

definition mergeConfigs :: "Config \<Rightarrow> Config \<Rightarrow> Config" where
  "mergeConfigs base override =
    (let result = base;
         result = (if Timeout (Service override) \<noteq> 0
                   then result\<lparr>Service := (Service result)\<lparr>Timeout := Timeout (Service override)\<rparr>\<rparr>
                   else result);
         result = (if RetryAttempts (Service override) \<noteq> 0
                   then result\<lparr>Service := (Service result)\<lparr>RetryAttempts := RetryAttempts (Service override)\<rparr>\<rparr>
                   else result);
         result = (if SocketPath (Service override) \<noteq> []
                   then result\<lparr>Service := (Service result)\<lparr>SocketPath := SocketPath (Service override)\<rparr>\<rparr>
                   else result);
         result = (if Level (Logging override) \<noteq> []
                   then result\<lparr>Logging := (Logging result)\<lparr>Level := Level (Logging override)\<rparr>\<rparr>
                   else result);
         result = (if Format (Logging override) \<noteq> []
                   then result\<lparr>Logging := (Logging result)\<lparr>Format := Format (Logging override)\<rparr>\<rparr>
                   else result);
         result = (if Enabled (Audio override) \<noteq> Enabled (Audio base)
                   then result\<lparr>Audio := (Audio result)\<lparr>Enabled := Enabled (Audio override)\<rparr>\<rparr>
                   else result);
         result = (if Volume (Audio override) \<noteq> 0
                   then result\<lparr>Audio := (Audio result)\<lparr>Volume := Volume (Audio override)\<rparr>\<rparr>
                   else result);
         result = (if CustomSoundSuccess (Audio override) \<noteq> []
                   then result\<lparr>Audio := (Audio result)\<lparr>CustomSoundSuccess := CustomSoundSuccess (Audio override)\<rparr>\<rparr>
                   else result);
         result = (if CustomSoundFailure (Audio override) \<noteq> []
                   then result\<lparr>Audio := (Audio result)\<lparr>CustomSoundFailure := CustomSoundFailure (Audio override)\<rparr>\<rparr>
                   else result);
         result = (if LivenessRequired (Security override) \<noteq> LivenessRequired (Security base)
                   then result\<lparr>Security := (Security result)\<lparr>LivenessRequired := LivenessRequired (Security override)\<rparr>\<rparr>
                   else result);
         result = (if f64_ne (MatchThreshold (Security override)) f64_0
                   then result\<lparr>Security := (Security result)\<lparr>MatchThreshold := MatchThreshold (Security override)\<rparr>\<rparr>
                   else result);
         result = (if MaxAuthAttempts (Security override) \<noteq> 0
                   then result\<lparr>Security := (Security result)\<lparr>MaxAuthAttempts := MaxAuthAttempts (Security override)\<rparr>\<rparr>
                   else result);
         result = (if LockoutDuration (Security override) \<noteq> 0
                   then result\<lparr>Security := (Security result)\<lparr>LockoutDuration := LockoutDuration (Security override)\<rparr>\<rparr>
                   else result)
     in result)"

subsection \<open>mergeConfigs on pointers\<close>

text \<open>
  The source takes and returns \<^verbatim>\<open>*Config\<close>. A heap is the list of the allocated
  \<open>Config\<close> values; a pointer is \<^verbatim>\<open>nil\<close> or the index of a cell, and
  dereferencing \<^verbatim>\<open>nil\<close> panics (\<open>None\<close>). The sections of a \<open>Config\<close>
  are nested struct values and its fields are scalars and strings, so one cell holds the
  whole value. \<^verbatim>\<open>result := *base\<close> allocates a new cell holding a copy of
  \<^verbatim>\<open>*base\<close>, every assignment writes that cell, every condition reads
  \<^verbatim>\<open>*override\<close> and \<^verbatim>\<open>*base\<close> from the heap as it is at that statement, and
  \<^verbatim>\<open>&result\<close> is returned.
\<close>

type_synonym addr = nat
type_synonym heap = "Config list"

datatype ptr = NilPtr | Ptr addr

fun deref :: "heap \<Rightarrow> ptr \<Rightarrow> Config option" where
  "deref h NilPtr = None"
| "deref h (Ptr a) = (if a < length h then Some (h ! a) else None)"

definition alloc :: "heap \<Rightarrow> Config \<Rightarrow> heap \<times> ptr" where
  "alloc h c = (h @ [c], Ptr (length h))"

fun store :: "heap \<Rightarrow> ptr \<Rightarrow> Config \<Rightarrow> heap option" where
  "store h NilPtr c = None"
| "store h (Ptr a) c = (if a < length h then Some (h[a := c]) else None)"

text \<open>One statement \<^verbatim>\<open>if cond { result.f = override.f }\<close> of the source.\<close>

definition assign_if ::
  "ptr \<Rightarrow> ptr \<Rightarrow> ptr \<Rightarrow> (Config \<Rightarrow> Config \<Rightarrow> bool)
     \<Rightarrow> (Config \<Rightarrow> Config \<Rightarrow> Config) \<Rightarrow> heap \<Rightarrow> heap option" where
  "assign_if base override result cond asg h =
     do {
       b \<leftarrow> deref h base;
       ov \<leftarrow> deref h override;
       if cond b ov then
         do {
           res \<leftarrow> deref h result;
           store h result (asg ov res)
         }
       else Some h
     }"

definition mergeConfigs_ptr :: "heap \<Rightarrow> ptr \<Rightarrow> ptr \<Rightarrow> (heap \<times> ptr) option" where
  "mergeConfigs_ptr h0 base override =
     do {
       b \<leftarrow> deref h0 base;
       (h, result) \<leftarrow> Some (alloc h0 b);
       h \<leftarrow> assign_if base override result
            (\<lambda>b ov. Timeout (Service ov) \<noteq> 0)
            (\<lambda>ov res. res\<lparr>Service := (Service res)\<lparr>Timeout := Timeout (Service ov)\<rparr>\<rparr>) h;
       h \<leftarrow> assign_if base override result
            (\<lambda>b ov. RetryAttempts (Service ov) \<noteq> 0)
            (\<lambda>ov res. res\<lparr>Service := (Service res)\<lparr>RetryAttempts := RetryAttempts (Service ov)\<rparr>\<rparr>) h;
       h \<leftarrow> assign_if base override result
            (\<lambda>b ov. SocketPath (Service ov) \<noteq> [])
            (\<lambda>ov res. res\<lparr>Service := (Service res)\<lparr>SocketPath := SocketPath (Service ov)\<rparr>\<rparr>) h;
       h \<leftarrow> assign_if base override result
            (\<lambda>b ov. Level (Logging ov) \<noteq> [])
            (\<lambda>ov res. res\<lparr>Logging := (Logging res)\<lparr>Level := Level (Logging ov)\<rparr>\<rparr>) h;
       h \<leftarrow> assign_if base override result
            (\<lambda>b ov. Format (Logging ov) \<noteq> [])
            (\<lambda>ov res. res\<lparr>Logging := (Logging res)\<lparr>Format := Format (Logging ov)\<rparr>\<rparr>) h;
       h \<leftarrow> assign_if base override result
            (\<lambda>b ov. Enabled (Audio ov) \<noteq> Enabled (Audio b))
            (\<lambda>ov res. res\<lparr>Audio := (Audio res)\<lparr>Enabled := Enabled (Audio ov)\<rparr>\<rparr>) h;
       h \<leftarrow> assign_if base override result
            (\<lambda>b ov. Volume (Audio ov) \<noteq> 0)
            (\<lambda>ov res. res\<lparr>Audio := (Audio res)\<lparr>Volume := Volume (Audio ov)\<rparr>\<rparr>) h;
       h \<leftarrow> assign_if base override result
            (\<lambda>b ov. CustomSoundSuccess (Audio ov) \<noteq> [])
            (\<lambda>ov res. res\<lparr>Audio := (Audio res)\<lparr>CustomSoundSuccess := CustomSoundSuccess (Audio ov)\<rparr>\<rparr>) h;
       h \<leftarrow> assign_if base override result
            (\<lambda>b ov. CustomSoundFailure (Audio ov) \<noteq> [])
            (\<lambda>ov res. res\<lparr>Audio := (Audio res)\<lparr>CustomSoundFailure := CustomSoundFailure (Audio ov)\<rparr>\<rparr>) h;
       h \<leftarrow> assign_if base override result
            (\<lambda>b ov. LivenessRequired (Security ov) \<noteq> LivenessRequired (Security b))
            (\<lambda>ov res. res\<lparr>Security := (Security res)\<lparr>LivenessRequired := LivenessRequired (Security ov)\<rparr>\<rparr>) h;
       h \<leftarrow> assign_if base override result
            (\<lambda>b ov. f64_ne (MatchThreshold (Security ov)) f64_0)
            (\<lambda>ov res. res\<lparr>Security := (Security res)\<lparr>MatchThreshold := MatchThreshold (Security ov)\<rparr>\<rparr>) h;
       h \<leftarrow> assign_if base override result
            (\<lambda>b ov. MaxAuthAttempts (Security ov) \<noteq> 0)
            (\<lambda>ov res. res\<lparr>Security := (Security res)\<lparr>MaxAuthAttempts := MaxAuthAttempts (Security ov)\<rparr>\<rparr>) h;
       h \<leftarrow> assign_if base override result
            (\<lambda>b ov. LockoutDuration (Security ov) \<noteq> 0)
            (\<lambda>ov res. res\<lparr>Security := (Security res)\<lparr>LockoutDuration := LockoutDuration (Security ov)\<rparr>\<rparr>) h;
       Some (h, result)
     }"

section \<open>Loading\<close>

text \<open>
  The loaders return \<open>Inl err\<close> for \<^verbatim>\<open>(nil, err)\<close> and \<open>Inr cfg\<close> for
  \<^verbatim>\<open>(cfg, nil)\<close>. The host does not change during a call.
\<close>

definition loadFromPath :: "world \<Rightarrow> string \<Rightarrow> Config \<Rightarrow> go_error + Config" where
  "loadFromPath w path cfg =
     (case ReadFile w path of
        Inl err \<Rightarrow> Inl (Errorf ''failed to read file: '' err)
      | Inr data \<Rightarrow>
          (case Unmarshal w data cfg of
             Inl err \<Rightarrow> Inl (Errorf ''failed to parse YAML: '' err)
           | Inr cfg' \<Rightarrow> Inr cfg'))"

definition LoadFromPath :: "world \<Rightarrow> string \<Rightarrow> go_error + Config" where
  "LoadFromPath w path =
     (let cfg = DefaultConfig in
      case expandPath w path of
        Inl err \<Rightarrow> Inl (Errorf (''failed to expand path '' @ path @ '': '') err)
      | Inr expandedPath \<Rightarrow>
          (case loadFromPath w expandedPath cfg of
             Inl err \<Rightarrow>
               Inl (Errorf (''failed to load config from '' @ expandedPath @ '': '') err)
           | Inr cfg \<Rightarrow>
               (case Validate w cfg of
                  Some err \<Rightarrow> Inl (Errorf ''configuration validation failed: '' err)
                | None \<Rightarrow> Inr cfg)))"

text \<open>The two overlay steps of \<open>Load\<close>, then the validation.\<close>

definition load_system :: "world \<Rightarrow> Config \<Rightarrow> go_error + Config" where
  "load_system w cfg =
     (if Stat w systemConfigPath then
        (case loadFromPath w systemConfigPath zeroConfig of
           Inl err \<Rightarrow> Inl (Errorf ''failed to load system config: '' err)
         | Inr systemCfg \<Rightarrow> Inr (mergeConfigs cfg systemCfg))
      else Inr cfg)"

definition load_user :: "world \<Rightarrow> Config \<Rightarrow> go_error + Config" where
  "load_user w cfg =
     (case expandPath w (filepath_Join [''~'', userConfigRelPath]) of
        Inl err \<Rightarrow> Inl (Errorf ''failed to expand user config path: '' err)
      | Inr userConfigPath \<Rightarrow>
          (if Stat w userConfigPath then
             (case loadFromPath w userConfigPath zeroConfig of
                Inl err \<Rightarrow> Inl (Errorf ''failed to load user config: '' err)
              | Inr userCfg \<Rightarrow> Inr (mergeConfigs cfg userCfg))
           else Inr cfg))"

definition Load :: "world \<Rightarrow> go_error + Config" where
  "Load w =
     (let cfg = DefaultConfig in
      case load_system w cfg of
        Inl err \<Rightarrow> Inl err
      | Inr cfg \<Rightarrow>
          (case load_user w cfg of
             Inl err \<Rightarrow> Inl err
           | Inr cfg \<Rightarrow>
               (case Validate w cfg of
                  Some err \<Rightarrow> Inl (Errorf ''configuration validation failed: '' err)
                | None \<Rightarrow> Inr cfg)))"

section \<open>Auxiliary definitions for the proofs\<close>

text \<open>A guarded update: \<open>upd_if c f r\<close> applies \<open>f\<close> to \<open>r\<close> when \<open>c\<close> holds.\<close>

definition upd_if :: "bool \<Rightarrow> ('a \<Rightarrow> 'a) \<Rightarrow> 'a \<Rightarrow> 'a" where
  "upd_if c f r = (if c then f r else r)"

text \<open>
  The violations \<open>Validate\<close> collects, written as the concatenation of what each check
  contributes.
\<close>

definition violations :: "world \<Rightarrow> Config \<Rightarrow> go_error list" where
  "violations w c =
     (if Timeout (Service c) \<le> 0 \<or> Timeout (Service c) > 60 then [err_timeout] else [])
     @ (if RetryAttempts (Service c) < 1 \<or> RetryAttempts (Service c) > 10
        then [err_retry_attempts] else [])
     @ (if SocketPath (Service c) = [] then [err_socket_path_empty]
        else if \<not> IsAbs (SocketPath (Service c)) then [err_socket_path_abs] else [])
     @ (if \<not> index_bool validLogLevels (ToUpper w (Level (Logging c)))
        then [err_log_level] else [])
     @ (if \<not> index_bool validLogFormats (ToLower w (Format (Logging c)))
        then [err_log_format] else [])
     @ (if Volume (Audio c) < 0 \<or> Volume (Audio c) > 100 then [err_audio_volume] else [])
     @ (if CustomSoundSuccess (Audio c) \<noteq> []
        then (if \<not> Stat w (CustomSoundSuccess (Audio c))
              then [err_custom_sound_success (CustomSoundSuccess (Audio c))] else [])
        else [])
     @ (if CustomSoundFailure (Audio c) \<noteq> []
        then (if \<not> Stat w (CustomSoundFailure (Audio c))
              then [err_custom_sound_failure (CustomSoundFailure (Audio c))] else [])
        else [])
     @ (if f64_lt (MatchThreshold (Security c)) f64_0
           \<or> f64_gt (MatchThreshold (Security c)) f64_1
        then [err_match_threshold] else [])
     @ (if MaxAuthAttempts (Security c) < 1 \<or> MaxAuthAttempts (Security c) > 20
        then [err_max_auth_attempts] else [])
     @ (if LockoutDuration (Security c) < 0 \<or> LockoutDuration (Security c) > 3600
        then [err_lockout_duration] else [])"

text \<open>A host with an empty filesystem and an empty environment, whose home directory
  is \<^verbatim>\<open>/home/alice\<close>.\<close>

definition bare_host :: world where
  "bare_host =
     \<lparr>Stat = (\<lambda>p. False),
      ReadFile = (\<lambda>p. Inl (New ''no such file or directory'')),
      UserHomeDir = Inr ''/home/alice'',
      LookupEnv = (\<lambda>k. None),
      Unmarshal = (\<lambda>data cfg. Inr cfg),
      MapToUpper = (\<lambda>s. s),
      MapToLower = (\<lambda>s. s)\<rparr>"

text \<open>The configuration of the aggregate-validation example: timeout 0 and volume 150,
  every other field valid.\<close>

definition timeout_volume_config :: Config where
  "timeout_volume_config =
     DefaultConfig\<lparr>Service := (Service DefaultConfig)\<lparr>Timeout := 0\<rparr>,
                   Logging := (Logging DefaultConfig)\<lparr>Format := ''text''\<rparr>,
                   Audio := (Audio DefaultConfig)\<lparr>Volume := 150\<rparr>\<rparr>"

text \<open>A configuration whose two custom sound paths name files that \<open>bare_host\<close> does
  not have.\<close>

definition missing_sounds_config :: Config where
  "missing_sounds_config =
     DefaultConfig\<lparr>Audio := (Audio DefaultConfig)
                     \<lparr>CustomSoundSuccess := ''/no/such/success.wav'',
                      CustomSoundFailure := ''/no/such/failure.wav''\<rparr>\<rparr>"

text \<open>A host with one configuration file, whose only content sets
  \<^verbatim>\<open>security.match_threshold\<close> to 1.5; decoding it into a destination changes that
  field only.\<close>

definition threshold_yaml :: string where
  "threshold_yaml = ''security:'' @ [CHR 0x0A] @ ''  match_threshold: 1.5'' @ [CHR 0x0A]"

definition threshold_host :: world where
  "threshold_host =
     bare_host
       \<lparr>Stat := (\<lambda>p. p = ''/srv/threshold.yaml''),
        ReadFile := (\<lambda>p. if p = ''/srv/threshold.yaml'' then Inr threshold_yaml
                          else Inl (New ''no such file or directory'')),
        Unmarshal := (\<lambda>data cfg.
                        if data = threshold_yaml
                        then Inr (cfg\<lparr>Security := (Security cfg)\<lparr>MatchThreshold := f64_1_5\<rparr>\<rparr>)
                        else Inr cfg)\<rparr>"

section \<open>Properties of mergeConfigs\<close>

text \<open>
  Each statement of \<open>mergeConfigs\<close> is a guarded update of one field. Written with
  \<open>upd_if\<close> the running \<open>result\<close> occurs once per statement, so a field of the
  final result can be read off statement by statement.
\<close>

lemma stmt_section:
  "\<And>c v r. (if c then r\<lparr>Service := (Service r)\<lparr>Timeout := v\<rparr>\<rparr> else r) =
     Service_update (upd_if c (Timeout_update (\<lambda>_. v))) r"
  "\<And>c v r. (if c then r\<lparr>Service := (Service r)\<lparr>RetryAttempts := v\<rparr>\<rparr> else r) =
     Service_update (upd_if c (RetryAttempts_update (\<lambda>_. v))) r"
  "\<And>c v r. (if c then r\<lparr>Service := (Service r)\<lparr>SocketPath := v\<rparr>\<rparr> else r) =
     Service_update (upd_if c (SocketPath_update (\<lambda>_. v))) r"
  "\<And>c v r. (if c then r\<lparr>Logging := (Logging r)\<lparr>Level := v\<rparr>\<rparr> else r) =
     Logging_update (upd_if c (Level_update (\<lambda>_. v))) r"
  "\<And>c v r. (if c then r\<lparr>Logging := (Logging r)\<lparr>Format := v\<rparr>\<rparr> else r) =
     Logging_update (upd_if c (Format_update (\<lambda>_. v))) r"
  "\<And>c v r. (if c then r\<lparr>Audio := (Audio r)\<lparr>Enabled := v\<rparr>\<rparr> else r) =
     Audio_update (upd_if c (Enabled_update (\<lambda>_. v))) r"
  "\<And>c v r. (if c then r\<lparr>Audio := (Audio r)\<lparr>Volume := v\<rparr>\<rparr> else r) =
     Audio_update (upd_if c (Volume_update (\<lambda>_. v))) r"
  "\<And>c v r. (if c then r\<lparr>Audio := (Audio r)\<lparr>CustomSoundSuccess := v\<rparr>\<rparr> else r) =
     Audio_update (upd_if c (CustomSoundSuccess_update (\<lambda>_. v))) r"
  "\<And>c v r. (if c then r\<lparr>Audio := (Audio r)\<lparr>CustomSoundFailure := v\<rparr>\<rparr> else r) =
     Audio_update (upd_if c (CustomSoundFailure_update (\<lambda>_. v))) r"
  "\<And>c v r. (if c then r\<lparr>Security := (Security r)\<lparr>LivenessRequired := v\<rparr>\<rparr> else r) =
     Security_update (upd_if c (LivenessRequired_update (\<lambda>_. v))) r"
  "\<And>c v r. (if c then r\<lparr>Security := (Security r)\<lparr>MatchThreshold := v\<rparr>\<rparr> else r) =
     Security_update (upd_if c (MatchThreshold_update (\<lambda>_. v))) r"
  "\<And>c v r. (if c then r\<lparr>Security := (Security r)\<lparr>MaxAuthAttempts := v\<rparr>\<rparr> else r) =
     Security_update (upd_if c (MaxAuthAttempts_update (\<lambda>_. v))) r"
  "\<And>c v r. (if c then r\<lparr>Security := (Security r)\<lparr>LockoutDuration := v\<rparr>\<rparr> else r) =
     Security_update (upd_if c (LockoutDuration_update (\<lambda>_. v))) r"
  by (simp_all add: upd_if_def)

lemma field_upd_if:
  "\<And>c f s. Timeout (upd_if c f s) = (if c then Timeout (f s) else Timeout s)"
  "\<And>c f s. RetryAttempts (upd_if c f s) = (if c then RetryAttempts (f s) else RetryAttempts s)"
  "\<And>c f s. SocketPath (upd_if c f s) = (if c then SocketPath (f s) else SocketPath s)"
  "\<And>c f s. Level (upd_if c f s) = (if c then Level (f s) else Level s)"
  "\<And>c f s. Format (upd_if c f s) = (if c then Format (f s) else Format s)"
  "\<And>c f s. Enabled (upd_if c f s) = (if c then Enabled (f s) else Enabled s)"
  "\<And>c f s. Volume (upd_if c f s) = (if c then Volume (f s) else Volume s)"
  "\<And>c f s. CustomSoundSuccess (upd_if c f s) = (if c then CustomSoundSuccess (f s) else CustomSoundSuccess s)"
  "\<And>c f s. CustomSoundFailure (upd_if c f s) = (if c then CustomSoundFailure (f s) else CustomSoundFailure s)"
  "\<And>c f s. LivenessRequired (upd_if c f s) = (if c then LivenessRequired (f s) else LivenessRequired s)"
  "\<And>c f s. MatchThreshold (upd_if c f s) = (if c then MatchThreshold (f s) else MatchThreshold s)"
  "\<And>c f s. MaxAuthAttempts (upd_if c f s) = (if c then MaxAuthAttempts (f s) else MaxAuthAttempts s)"
  "\<And>c f s. LockoutDuration (upd_if c f s) = (if c then LockoutDuration (f s) else LockoutDuration s)"
  by (simp_all add: upd_if_def)

lemma mergeConfigs_sel:
  "Timeout (Service (mergeConfigs base override)) =
     (if Timeout (Service override) \<noteq> 0 then Timeout (Service override) else Timeout (Service base))"
  "RetryAttempts (Service (mergeConfigs base override)) =
     (if RetryAttempts (Service override) \<noteq> 0 then RetryAttempts (Service override) else RetryAttempts (Service base))"
  "SocketPath (Service (mergeConfigs base override)) =
     (if SocketPath (Service override) \<noteq> [] then SocketPath (Service override) else SocketPath (Service base))"
  "Level (Logging (mergeConfigs base override)) =
     (if Level (Logging override) \<noteq> [] then Level (Logging override) else Level (Logging base))"
  "Format (Logging (mergeConfigs base override)) =
     (if Format (Logging override) \<noteq> [] then Format (Logging override) else Format (Logging base))"
  "Enabled (Audio (mergeConfigs base override)) =
     (if Enabled (Audio override) \<noteq> Enabled (Audio base) then Enabled (Audio override) else Enabled (Audio base))"
  "Volume (Audio (mergeConfigs base override)) =
     (if Volume (Audio override) \<noteq> 0 then Volume (Audio override) else Volume (Audio base))"
  "CustomSoundSuccess (Audio (mergeConfigs base override)) =
     (if CustomSoundSuccess (Audio override) \<noteq> [] then CustomSoundSuccess (Audio override) else CustomSoundSuccess (Audio base))"
  "CustomSoundFailure (Audio (mergeConfigs base override)) =
     (if CustomSoundFailure (Audio override) \<noteq> [] then CustomSoundFailure (Audio override) else CustomSoundFailure (Audio base))"
  "LivenessRequired (Security (mergeConfigs base override)) =
     (if LivenessRequired (Security override) \<noteq> LivenessRequired (Security base) then LivenessRequired (Security override) else LivenessRequired (Security base))"
  "MatchThreshold (Security (mergeConfigs base override)) =
     (if f64_ne (MatchThreshold (Security override)) f64_0 then MatchThreshold (Security override) else MatchThreshold (Security base))"
  "MaxAuthAttempts (Security (mergeConfigs base override)) =
     (if MaxAuthAttempts (Security override) \<noteq> 0 then MaxAuthAttempts (Security override) else MaxAuthAttempts (Security base))"
  "LockoutDuration (Security (mergeConfigs base override)) =
     (if LockoutDuration (Security override) \<noteq> 0 then LockoutDuration (Security override) else LockoutDuration (Security base))"
  unfolding mergeConfigs_def
  by (simp_all only: stmt_section Let_def) (simp_all add: field_upd_if cong: if_cong)

text \<open>
  Claim C4. For every base and override, \<open>mergeConfigs\<close> applies the per-field policy:
  a string, integer or float field whose override value is the zero value of its type
  (the empty string, 0, or a float that compares equal to 0.0 under Go's \<^verbatim>\<open>==\<close>)
  keeps the base's value, and takes the override's value otherwise; each of the two
  boolean fields takes the override's value exactly when it differs from the base's.
\<close>

theorem mergeConfigs_field_policy:
  "Timeout (Service (mergeConfigs base override)) =
       (if Timeout (Service override) = 0 then Timeout (Service base)
        else Timeout (Service override))
   \<and> RetryAttempts (Service (mergeConfigs base override)) =
       (if RetryAttempts (Service override) = 0 then RetryAttempts (Service base)
        else RetryAttempts (Service override))
   \<and> SocketPath (Service (mergeConfigs base override)) =
       (if SocketPath (Service override) = '''' then SocketPath (Service base)
        else SocketPath (Service override))
   \<and> Level (Logging (mergeConfigs base override)) =
       (if Level (Logging override) = '''' then Level (Logging base)
        else Level (Logging override))
   \<and> Format (Logging (mergeConfigs base override)) =
       (if Format (Logging override) = '''' then Format (Logging base)
        else Format (Logging override))
   \<and> Enabled (Audio (mergeConfigs base override)) =
       (if Enabled (Audio override) \<noteq> Enabled (Audio base) then Enabled (Audio override)
        else Enabled (Audio base))
   \<and> Volume (Audio (mergeConfigs base override)) =
       (if Volume (Audio override) = 0 then Volume (Audio base)
        else Volume (Audio override))
   \<and> CustomSoundSuccess (Audio (mergeConfigs base override)) =
       (if CustomSoundSuccess (Audio override) = '''' then CustomSoundSuccess (Audio base)
        else CustomSoundSuccess (Audio override))
   \<and> CustomSoundFailure (Audio (mergeConfigs base override)) =
       (if CustomSoundFailure (Audio override) = '''' then CustomSoundFailure (Audio base)
        else CustomSoundFailure (Audio override))
   \<and> LivenessRequired (Security (mergeConfigs base override)) =
       (if LivenessRequired (Security override) \<noteq> LivenessRequired (Security base) then LivenessRequired (Security override)
        else LivenessRequired (Security base))
   \<and> MatchThreshold (Security (mergeConfigs base override)) =
       (if f64_eq (MatchThreshold (Security override)) f64_0 then MatchThreshold (Security base)
        else MatchThreshold (Security override))
   \<and> MaxAuthAttempts (Security (mergeConfigs base override)) =
       (if MaxAuthAttempts (Security override) = 0 then MaxAuthAttempts (Security base)
        else MaxAuthAttempts (Security override))
   \<and> LockoutDuration (Security (mergeConfigs base override)) =
       (if LockoutDuration (Security override) = 0 then LockoutDuration (Security base)
        else LockoutDuration (Security override))"
  by (simp add: mergeConfigs_sel f64_ne_def)

text \<open>
  Claim C10. Merging a configuration with itself gives the same configuration, field for
  field (a float field is compared by its bit pattern, so a NaN threshold counts as
  unchanged too).
\<close>

theorem mergeConfigs_idem: "mergeConfigs c c = c"
proof -
  have "Service (mergeConfigs c c) = Service c"
    by (rule ServiceConfig.equality) (simp_all add: mergeConfigs_sel)
  moreover have "Logging (mergeConfigs c c) = Logging c"
    by (rule LoggingConfig.equality) (simp_all add: mergeConfigs_sel)
  moreover have "Audio (mergeConfigs c c) = Audio c"
    by (rule AudioConfig.equality) (simp_all add: mergeConfigs_sel)
  moreover have "Security (mergeConfigs c c) = Security c"
    by (rule SecurityConfig.equality) (simp_all add: mergeConfigs_sel)
  ultimately show ?thesis
    by (simp add: Config.equality)
qed

subsection \<open>The pointer version\<close>

lemma stmt_lambda:
  "\<And>c v r. (if c then r\<lparr>Service := (Service r)\<lparr>Timeout := v\<rparr>\<rparr> else r) =
     upd_if c (\<lambda>res. res\<lparr>Service := (Service res)\<lparr>Timeout := v\<rparr>\<rparr>) r"
  "\<And>c v r. (if c then r\<lparr>Service := (Service r)\<lparr>RetryAttempts := v\<rparr>\<rparr> else r) =
     upd_if c (\<lambda>res. res\<lparr>Service := (Service res)\<lparr>RetryAttempts := v\<rparr>\<rparr>) r"
  "\<And>c v r. (if c then r\<lparr>Service := (Service r)\<lparr>SocketPath := v\<rparr>\<rparr> else r) =
     upd_if c (\<lambda>res. res\<lparr>Service := (Service res)\<lparr>SocketPath := v\<rparr>\<rparr>) r"
  "\<And>c v r. (if c then r\<lparr>Logging := (Logging r)\<lparr>Level := v\<rparr>\<rparr> else r) =
     upd_if c (\<lambda>res. res\<lparr>Logging := (Logging res)\<lparr>Level := v\<rparr>\<rparr>) r"
  "\<And>c v r. (if c then r\<lparr>Logging := (Logging r)\<lparr>Format := v\<rparr>\<rparr> else r) =
     upd_if c (\<lambda>res. res\<lparr>Logging := (Logging res)\<lparr>Format := v\<rparr>\<rparr>) r"
  "\<And>c v r. (if c then r\<lparr>Audio := (Audio r)\<lparr>Enabled := v\<rparr>\<rparr> else r) =
     upd_if c (\<lambda>res. res\<lparr>Audio := (Audio res)\<lparr>Enabled := v\<rparr>\<rparr>) r"
  "\<And>c v r. (if c then r\<lparr>Audio := (Audio r)\<lparr>Volume := v\<rparr>\<rparr> else r) =
     upd_if c (\<lambda>res. res\<lparr>Audio := (Audio res)\<lparr>Volume := v\<rparr>\<rparr>) r"
  "\<And>c v r. (if c then r\<lparr>Audio := (Audio r)\<lparr>CustomSoundSuccess := v\<rparr>\<rparr> else r) =
     upd_if c (\<lambda>res. res\<lparr>Audio := (Audio res)\<lparr>CustomSoundSuccess := v\<rparr>\<rparr>) r"
  "\<And>c v r. (if c then r\<lparr>Audio := (Audio r)\<lparr>CustomSoundFailure := v\<rparr>\<rparr> else r) =
     upd_if c (\<lambda>res. res\<lparr>Audio := (Audio res)\<lparr>CustomSoundFailure := v\<rparr>\<rparr>) r"
  "\<And>c v r. (if c then r\<lparr>Security := (Security r)\<lparr>LivenessRequired := v\<rparr>\<rparr> else r) =
     upd_if c (\<lambda>res. res\<lparr>Security := (Security res)\<lparr>LivenessRequired := v\<rparr>\<rparr>) r"
  "\<And>c v r. (if c then r\<lparr>Security := (Security r)\<lparr>MatchThreshold := v\<rparr>\<rparr> else r) =
     upd_if c (\<lambda>res. res\<lparr>Security := (Security res)\<lparr>MatchThreshold := v\<rparr>\<rparr>) r"
  "\<And>c v r. (if c then r\<lparr>Security := (Security r)\<lparr>MaxAuthAttempts := v\<rparr>\<rparr> else r) =
     upd_if c (\<lambda>res. res\<lparr>Security := (Security res)\<lparr>MaxAuthAttempts := v\<rparr>\<rparr>) r"
  "\<And>c v r. (if c then r\<lparr>Security := (Security r)\<lparr>LockoutDuration := v\<rparr>\<rparr> else r) =
     upd_if c (\<lambda>res. res\<lparr>Security := (Security res)\<lparr>LockoutDuration := v\<rparr>\<rparr>) r"
  by (simp_all add: upd_if_def)

lemma deref_append:
  assumes "deref h p = Some c"
  shows "deref (h @ [r]) p = Some c"
  using assms by (cases p) (simp_all add: nth_append split: if_splits)

lemma deref_fresh: "deref h (Ptr (length h)) = None"
  by simp

lemma assign_if_result:
  assumes "deref h base = Some b" and "deref h override = Some ov"
  shows "assign_if base override (Ptr (length h)) cond asg (h @ [r]) =
           Some (h @ [upd_if (cond b ov) (asg ov) r])"
  by (simp add: assign_if_def deref_append [OF assms(1)] deref_append [OF assms(2)]
      upd_if_def)

text \<open>
  When both arguments point into the heap, the pointer version returns the heap
  extended by one cell, which holds \<open>mergeConfigs\<close> of the two values.
\<close>

lemma mergeConfigs_ptr_eq:
  assumes "deref h base = Some b" and "deref h override = Some ov"
  shows "mergeConfigs_ptr h base override =
           Some (h @ [mergeConfigs b ov], Ptr (length h))"
  unfolding mergeConfigs_ptr_def alloc_def mergeConfigs_def
  apply (simp only: stmt_lambda Let_def)
  apply (simp add: assms assign_if_result [OF assms])
  done

text \<open>
  Claim C9. For every heap in which \<open>base\<close> and \<open>override\<close> point to
  configurations (they may be the same cell), \<open>mergeConfigs\<close> returns a pointer to a
  cell that was not allocated before, holding the merged configuration, and every cell
  of the heap, that of \<open>base\<close> and that of \<open>override\<close> among them, holds the
  value it held before the call.
\<close>

theorem mergeConfigs_ptr_fresh_frame:
  assumes "deref h base = Some b" and "deref h override = Some ov"
  shows "\<exists>h' a. mergeConfigs_ptr h base override = Some (h', Ptr a)
           \<and> deref h (Ptr a) = None
           \<and> deref h' (Ptr a) = Some (mergeConfigs b ov)
           \<and> deref h' base = Some b
           \<and> deref h' override = Some ov
           \<and> (\<forall>p c. deref h p = Some c \<longrightarrow> deref h' p = Some c)"
proof (intro exI conjI)
  show "mergeConfigs_ptr h base override = Some (h @ [mergeConfigs b ov], Ptr (length h))"
    by (rule mergeConfigs_ptr_eq [OF assms])
  show "deref h (Ptr (length h)) = None"
    by (rule deref_fresh)
  show "deref (h @ [mergeConfigs b ov]) (Ptr (length h)) = Some (mergeConfigs b ov)"
    by simp
  show "deref (h @ [mergeConfigs b ov]) base = Some b"
    by (rule deref_append [OF assms(1)])
  show "deref (h @ [mergeConfigs b ov]) override = Some ov"
    by (rule deref_append [OF assms(2)])
  show "\<forall>p c. deref h p = Some c \<longrightarrow> deref (h @ [mergeConfigs b ov]) p = Some c"
    by (simp add: deref_append)
qed

theorem mergeConfigs_ptr_fresh_frame_witness:
  "deref [DefaultConfig, zeroConfig] (Ptr 0) = Some DefaultConfig
   \<and> deref [DefaultConfig, zeroConfig] (Ptr 1) = Some zeroConfig
   \<and> (\<exists>h' a. mergeConfigs_ptr [DefaultConfig, zeroConfig] (Ptr 0) (Ptr 1) = Some (h', Ptr a)
          \<and> deref [DefaultConfig, zeroConfig] (Ptr a) = None
          \<and> deref h' (Ptr a) = Some (mergeConfigs DefaultConfig zeroConfig)
          \<and> deref h' (Ptr 0) = Some DefaultConfig
          \<and> deref h' (Ptr 1) = Some zeroConfig)"
proof -
  have b: "deref [DefaultConfig, zeroConfig] (Ptr 0) = Some DefaultConfig"
    by simp
  have ov: "deref [DefaultConfig, zeroConfig] (Ptr 1) = Some zeroConfig"
    by simp
  from mergeConfigs_ptr_fresh_frame [OF b ov] b ov show ?thesis
    by blast
qed

section \<open>Properties of Validate\<close>

lemma append_if: "(if b then xs @ ys else xs) = xs @ (if b then ys else [])"
  by simp

lemma append_if_else: "(if b then xs @ ys else xs @ zs) = xs @ (if b then ys else zs)"
  by simp

lemma join_or_nil:
  "(if length xs > 0 then Some (Join xs) else None) =
   (if xs = [] then None else Some (Join xs))"
  by simp

text \<open>\<open>Validate\<close> returns nil when no check fails, and the join of all violations
  otherwise.\<close>

lemma Validate_violations:
  "Validate w c = (if violations w c = [] then None else Some (Join (violations w c)))"
  unfolding Validate_def violations_def
  apply (simp only: append_if append_if_else Let_def)
  apply (simp only: join_or_nil append_Nil append_assoc)
  done

lemma strings_Join_mentions:
  assumes "m \<in> set ms"
  shows "\<exists>ps ss. strings_Join ms sep = ps @ m @ ss"
  using assms
proof (induction ms sep rule: strings_Join.induct)
  case (1 sep)
  then show ?case by simp
next
  case (2 m' sep)
  then have "strings_Join [m'] sep = [] @ m @ []" by simp
  then show ?case by blast
next
  case (3 m' n ms sep)
  show ?case
  proof (cases "m = m'")
    case True
    then have "strings_Join (m' # n # ms) sep = [] @ m @ (sep @ strings_Join (n # ms) sep)"
      by simp
    then show ?thesis by blast
  next
    case False
    with 3 obtain ps ss where "strings_Join (n # ms) sep = ps @ m @ ss"
      by auto
    then have "strings_Join (m' # n # ms) sep = (m' @ sep @ ps) @ m @ ss"
      by simp
    then show ?thesis by blast
  qed
qed

text \<open>The message of a joined error contains the message of each of its parts.\<close>

lemma Join_mentions:
  assumes "e \<in> set es"
  shows "sublist (Error e) (Error (Join es))"
proof -
  from assms have "Error e \<in> set (map Error es)" by simp
  from strings_Join_mentions [OF this] show ?thesis
    by (simp add: sublist_def)
qed

lemma ToUpper_INFO: "ToUpper w ''INFO'' = ''INFO''"
  by (simp add: ToUpper_def isASCII_def upper_byte_def)

lemma ToLower_test: "ToLower w ''test'' = ''test''"
  by (simp add: ToLower_def isASCII_def lower_byte_def)

lemma ToLower_text: "ToLower w ''text'' = ''text''"
  by (simp add: ToLower_def isASCII_def lower_byte_def)

lemma default_threshold_in_range:
  "\<not> f64_lt f64_0_85 f64_0" "\<not> f64_gt f64_0_85 f64_1"
  by (simp_all add: f64_lt_def f64_gt_def f64_isNaN_def f64_mag_def f64_neg_def
      f64_0_def f64_1_def f64_0_85_def)

lemma threshold_1_5_out_of_range: "f64_gt f64_1_5 f64_1"
  by (simp add: f64_lt_def f64_gt_def f64_isNaN_def f64_mag_def f64_neg_def
      f64_1_def f64_1_5_def)

lemmas eval_checks =
  IsAbs_def HasPrefix_def index_bool_def validLogLevels_def validLogFormats_def
  ToUpper_INFO ToLower_test ToLower_text default_threshold_in_range
  threshold_1_5_out_of_range

lemma Validate_default:
  "Validate w DefaultConfig = Some (Join [err_log_format])"
  by (simp add: Validate_violations violations_def DefaultConfig_def eval_checks)

text \<open>With the log format \<^verbatim>\<open>text\<close> in place of \<^verbatim>\<open>test\<close>, the defaults are valid.\<close>

lemma Validate_default_with_text:
  "Validate w (DefaultConfig\<lparr>Logging := (Logging DefaultConfig)\<lparr>Format := ''text''\<rparr>\<rparr>) = None"
  by (simp add: Validate_violations violations_def DefaultConfig_def eval_checks)

text \<open>
  Claim C1 (the code departs from it). \<open>Validate\<close> rejects \<open>DefaultConfig\<close> on every
  host: the default log format is \<^verbatim>\<open>test\<close>, which is neither \<^verbatim>\<open>json\<close> nor
  \<^verbatim>\<open>text\<close>, and that is the one violation reported.
\<close>

theorem Validate_DefaultConfig_fails:
  "Validate w DefaultConfig = Some (Join [err_log_format])
   \<and> Error (Join [err_log_format]) = ''log_format must be 'json' or 'text'' @ [CHR 0x27]"
  by (simp add: Validate_default err_log_format_def)

text \<open>
  Claim C5. \<open>Validate\<close> does not stop at the first violation. When the timeout is 0 and
  the volume is 150, the returned error is the join of all violations, the timeout
  violation and the volume violation are both among them, and the message contains the
  text of both; when every other field is valid, they are the only two, in that order.
\<close>

theorem Validate_reports_all:
  assumes "Timeout (Service c) = 0" and "Volume (Audio c) = 150"
  shows "\<exists>es. Validate w c = Some (Join es)
           \<and> es = violations w c
           \<and> err_timeout \<in> set es
           \<and> err_audio_volume \<in> set es
           \<and> sublist ''timeout must be between 1 and 60 seconds'' (Error (Join es))
           \<and> sublist ''audio_volume must be between 0 and 100'' (Error (Join es))
           \<and> (1 \<le> RetryAttempts (Service c) \<and> RetryAttempts (Service c) \<le> 10
                \<and> SocketPath (Service c) \<noteq> [] \<and> IsAbs (SocketPath (Service c))
                \<and> index_bool validLogLevels (ToUpper w (Level (Logging c)))
                \<and> index_bool validLogFormats (ToLower w (Format (Logging c)))
                \<and> (CustomSoundSuccess (Audio c) = [] \<or> Stat w (CustomSoundSuccess (Audio c)))
                \<and> (CustomSoundFailure (Audio c) = [] \<or> Stat w (CustomSoundFailure (Audio c)))
                \<and> \<not> f64_lt (MatchThreshold (Security c)) f64_0
                \<and> \<not> f64_gt (MatchThreshold (Security c)) f64_1
                \<and> 1 \<le> MaxAuthAttempts (Security c) \<and> MaxAuthAttempts (Security c) \<le> 20
                \<and> 0 \<le> LockoutDuration (Security c) \<and> LockoutDuration (Security c) \<le> 3600
              \<longrightarrow> es = [err_timeout, err_audio_volume])"
proof -
  have t: "err_timeout \<in> set (violations w c)"
    using assms(1) by (simp add: violations_def)
  have v: "err_audio_volume \<in> set (violations w c)"
    using assms(2) by (simp add: violations_def)
  from t have ne: "violations w c \<noteq> []"
    by auto
  have "Validate w c = Some (Join (violations w c))"
    using ne by (simp add: Validate_violations)
  moreover have "sublist ''timeout must be between 1 and 60 seconds''
                    (Error (Join (violations w c)))"
    using Join_mentions [OF t] by (simp add: err_timeout_def)
  moreover have "sublist ''audio_volume must be between 0 and 100''
                    (Error (Join (violations w c)))"
    using Join_mentions [OF v] by (simp add: err_audio_volume_def)
  moreover have "1 \<le> RetryAttempts (Service c) \<and> RetryAttempts (Service c) \<le> 10
                \<and> SocketPath (Service c) \<noteq> [] \<and> IsAbs (SocketPath (Service c))
                \<and> index_bool validLogLevels (ToUpper w (Level (Logging c)))
                \<and> index_bool validLogFormats (ToLower w (Format (Logging c)))
                \<and> (CustomSoundSuccess (Audio c) = [] \<or> Stat w (CustomSoundSuccess (Audio c)))
                \<and> (CustomSoundFailure (Audio c) = [] \<or> Stat w (CustomSoundFailure (Audio c)))
                \<and> \<not> f64_lt (MatchThreshold (Security c)) f64_0
                \<and> \<not> f64_gt (MatchThreshold (Security c)) f64_1
                \<and> 1 \<le> MaxAuthAttempts (Security c) \<and> MaxAuthAttempts (Security c) \<le> 20
                \<and> 0 \<le> LockoutDuration (Security c) \<and> LockoutDuration (Security c) \<le> 3600
              \<longrightarrow> violations w c = [err_timeout, err_audio_volume]"
    using assms by (auto simp add: violations_def)
  ultimately show ?thesis
    using t v by blast
qed

theorem Validate_reports_all_witness:
  "Timeout (Service timeout_volume_config) = 0
   \<and> Volume (Audio timeout_volume_config) = 150
   \<and> Validate bare_host timeout_volume_config = Some (Join [err_timeout, err_audio_volume])"
proof -
  let ?c = timeout_volume_config
  have t: "Timeout (Service ?c) = 0"
    by (simp add: timeout_volume_config_def)
  have v: "Volume (Audio ?c) = 150"
    by (simp add: timeout_volume_config_def)
  have rest: "1 \<le> RetryAttempts (Service ?c) \<and> RetryAttempts (Service ?c) \<le> 10
                \<and> SocketPath (Service ?c) \<noteq> [] \<and> IsAbs (SocketPath (Service ?c))
                \<and> index_bool validLogLevels (ToUpper bare_host (Level (Logging ?c)))
                \<and> index_bool validLogFormats (ToLower bare_host (Format (Logging ?c)))
                \<and> (CustomSoundSuccess (Audio ?c) = []
                     \<or> Stat bare_host (CustomSoundSuccess (Audio ?c)))
                \<and> (CustomSoundFailure (Audio ?c) = []
                     \<or> Stat bare_host (CustomSoundFailure (Audio ?c)))
                \<and> \<not> f64_lt (MatchThreshold (Security ?c)) f64_0
                \<and> \<not> f64_gt (MatchThreshold (Security ?c)) f64_1
                \<and> 1 \<le> MaxAuthAttempts (Security ?c) \<and> MaxAuthAttempts (Security ?c) \<le> 20
                \<and> 0 \<le> LockoutDuration (Security ?c) \<and> LockoutDuration (Security ?c) \<le> 3600"
    by (simp add: timeout_volume_config_def DefaultConfig_def eval_checks)
  from Validate_reports_all [OF t v, of bare_host]
  obtain es where ret: "Validate bare_host ?c = Some (Join es)"
    and only: "1 \<le> RetryAttempts (Service ?c) \<and> RetryAttempts (Service ?c) \<le> 10
                \<and> SocketPath (Service ?c) \<noteq> [] \<and> IsAbs (SocketPath (Service ?c))
                \<and> index_bool validLogLevels (ToUpper bare_host (Level (Logging ?c)))
                \<and> index_bool validLogFormats (ToLower bare_host (Format (Logging ?c)))
                \<and> (CustomSoundSuccess (Audio ?c) = []
                     \<or> Stat bare_host (CustomSoundSuccess (Audio ?c)))
                \<and> (CustomSoundFailure (Audio ?c) = []
                     \<or> Stat bare_host (CustomSoundFailure (Audio ?c)))
                \<and> \<not> f64_lt (MatchThreshold (Security ?c)) f64_0
                \<and> \<not> f64_gt (MatchThreshold (Security ?c)) f64_1
                \<and> 1 \<le> MaxAuthAttempts (Security ?c) \<and> MaxAuthAttempts (Security ?c) \<le> 20
                \<and> 0 \<le> LockoutDuration (Security ?c) \<and> LockoutDuration (Security ?c) \<le> 3600
              \<longrightarrow> es = [err_timeout, err_audio_volume]"
    by (elim exE conjE)
  from only rest have "es = [err_timeout, err_audio_volume]"
    by (rule mp)
  with ret t v show ?thesis
    by simp
qed

lemma sublist_trans:
  assumes "sublist xs ys" and "sublist ys zs"
  shows "sublist xs zs"
proof -
  from assms obtain p s p' s' where "ys = p @ xs @ s" and "zs = p' @ ys @ s'"
    by (auto simp: sublist_def)
  then have "zs = (p' @ p) @ xs @ (s @ s')"
    by simp
  then show ?thesis
    unfolding sublist_def by blast
qed

lemma violations_success:
  assumes "CustomSoundSuccess (Audio c) \<noteq> []" and "\<not> Stat w (CustomSoundSuccess (Audio c))"
  shows "err_custom_sound_success (CustomSoundSuccess (Audio c)) \<in> set (violations w c)"
  using assms by (simp add: violations_def)

lemma violations_failure:
  assumes "CustomSoundFailure (Audio c) \<noteq> []" and "\<not> Stat w (CustomSoundFailure (Audio c))"
  shows "err_custom_sound_failure (CustomSoundFailure (Audio c)) \<in> set (violations w c)"
  using assms by (simp add: violations_def)

lemma violation_reported:
  assumes "e \<in> set (violations w c)"
  shows "Validate w c = Some (Join (violations w c))
         \<and> sublist (Error e) (Error (Join (violations w c)))"
proof -
  from assms have "violations w c \<noteq> []"
    by auto
  then have "Validate w c = Some (Join (violations w c))"
    by (simp add: Validate_violations)
  with Join_mentions [OF assms] show ?thesis
    by simp
qed

text \<open>
  Claim C8. For every configuration and host: when a custom sound path (for success, or
  for failure) is non-empty and \<^verbatim>\<open>os.Stat\<close> fails on it, \<open>Validate\<close> returns an error,
  the violation for that path is among the joined errors, and the error message contains
  that path.
\<close>

theorem Validate_missing_custom_sound:
  "(CustomSoundSuccess (Audio c) \<noteq> [] \<and> \<not> Stat w (CustomSoundSuccess (Audio c)) \<longrightarrow>
      (\<exists>es. Validate w c = Some (Join es)
         \<and> New (''custom_sound_success file not found: '' @ CustomSoundSuccess (Audio c))
             \<in> set es
         \<and> sublist (CustomSoundSuccess (Audio c)) (Error (Join es))))
   \<and> (CustomSoundFailure (Audio c) \<noteq> [] \<and> \<not> Stat w (CustomSoundFailure (Audio c)) \<longrightarrow>
      (\<exists>es. Validate w c = Some (Join es)
         \<and> New (''custom_sound_failure file not found: '' @ CustomSoundFailure (Audio c))
             \<in> set es
         \<and> sublist (CustomSoundFailure (Audio c)) (Error (Join es))))"
proof (intro conjI impI)
  assume a: "CustomSoundSuccess (Audio c) \<noteq> [] \<and> \<not> Stat w (CustomSoundSuccess (Audio c))"
  let ?p = "CustomSoundSuccess (Audio c)"
  from a have m: "err_custom_sound_success ?p \<in> set (violations w c)"
    by (simp add: violations_success)
  have "sublist ?p (Error (err_custom_sound_success ?p))"
    unfolding err_custom_sound_success_def Error.simps by (rule sublist_append_leftI)
  with violation_reported [OF m]
  have "Validate w c = Some (Join (violations w c))
        \<and> sublist ?p (Error (Join (violations w c)))"
    by (blast intro: sublist_trans)
  with m show "\<exists>es. Validate w c = Some (Join es)
         \<and> New (''custom_sound_success file not found: '' @ ?p) \<in> set es
         \<and> sublist ?p (Error (Join es))"
    unfolding err_custom_sound_success_def by blast
next
  assume a: "CustomSoundFailure (Audio c) \<noteq> [] \<and> \<not> Stat w (CustomSoundFailure (Audio c))"
  let ?p = "CustomSoundFailure (Audio c)"
  from a have m: "err_custom_sound_failure ?p \<in> set (violations w c)"
    by (simp add: violations_failure)
  have "sublist ?p (Error (err_custom_sound_failure ?p))"
    unfolding err_custom_sound_failure_def Error.simps by (rule sublist_append_leftI)
  with violation_reported [OF m]
  have "Validate w c = Some (Join (violations w c))
        \<and> sublist ?p (Error (Join (violations w c)))"
    by (blast intro: sublist_trans)
  with m show "\<exists>es. Validate w c = Some (Join es)
         \<and> New (''custom_sound_failure file not found: '' @ ?p) \<in> set es
         \<and> sublist ?p (Error (Join es))"
    unfolding err_custom_sound_failure_def by blast
qed

theorem Validate_missing_custom_sound_witness:
  "CustomSoundSuccess (Audio missing_sounds_config) = ''/no/such/success.wav''
   \<and> CustomSoundFailure (Audio missing_sounds_config) = ''/no/such/failure.wav''
   \<and> \<not> Stat bare_host ''/no/such/success.wav''
   \<and> \<not> Stat bare_host ''/no/such/failure.wav''
   \<and> (\<exists>es. Validate bare_host missing_sounds_config = Some (Join es)
          \<and> New ''custom_sound_success file not found: /no/such/success.wav'' \<in> set es
          \<and> sublist ''/no/such/success.wav'' (Error (Join es)))
   \<and> (\<exists>es. Validate bare_host missing_sounds_config = Some (Join es)
          \<and> New ''custom_sound_failure file not found: /no/such/failure.wav'' \<in> set es
          \<and> sublist ''/no/such/failure.wav'' (Error (Join es)))"
proof -
  have s: "CustomSoundSuccess (Audio missing_sounds_config) = ''/no/such/success.wav''"
    and f: "CustomSoundFailure (Audio missing_sounds_config) = ''/no/such/failure.wav''"
    by (simp_all add: missing_sounds_config_def)
  have ns: "\<not> Stat bare_host ''/no/such/success.wav''"
    and nf: "\<not> Stat bare_host ''/no/such/failure.wav''"
    by (simp_all add: bare_host_def)
  from Validate_missing_custom_sound [of missing_sounds_config bare_host] s f ns nf
  show ?thesis
    by simp
qed

section \<open>Properties of path expansion\<close>

lemma Expand_no_dollar:
  assumes "CHR ''$'' \<notin> set s"
  shows "Expand mapping s = s"
  using assms by (induction s) auto

lemma Expand_plain_prefix:
  assumes "CHR ''$'' \<notin> set pre"
  shows "Expand mapping (pre @ s) = pre @ Expand mapping s"
  using assms by (induction pre) auto

lemma takeWhile_FOO:
  assumes "post = [] \<or> \<not> isAlphaNum (hd post)"
  shows "takeWhile isAlphaNum (''FOO'' @ post) = ''FOO''"
proof -
  have "isAlphaNum CHR ''F''" and "isAlphaNum CHR ''O''"
    by (simp_all add: isAlphaNum_def)
  moreover from assms have "takeWhile isAlphaNum post = []"
    by (cases post) auto
  ultimately show ?thesis
    by simp
qed

lemma getShellName_FOO:
  assumes "post = [] \<or> \<not> isAlphaNum (hd post)"
  shows "getShellName (''FOO'' @ post) = (''FOO'', 3)"
proof -
  have "\<not> isShellSpecialVar CHR ''F''"
    by (simp add: isShellSpecialVar_def)
  moreover have "getShellName (''FOO'' @ post) = getShellName (CHR ''F'' # (''OO'' @ post))"
    by simp
  ultimately show ?thesis
    using takeWhile_FOO [OF assms] by (simp del: takeWhile.simps takeWhile_append1 takeWhile_append2)
qed

lemma Expand_FOO:
  assumes "post = [] \<or> \<not> isAlphaNum (hd post)"
  shows "Expand mapping (''$FOO'' @ post) = mapping ''FOO'' @ Expand mapping post"
proof -
  have "Expand mapping (''$FOO'' @ post) = Expand mapping (CHR ''$'' # (''FOO'' @ post))"
    by simp
  also have "\<dots> = mapping ''FOO'' @ Expand mapping (drop 3 (''FOO'' @ post))"
    by (simp only: Expand.simps getShellName_FOO [OF assms] Let_def fst_conv snd_conv)
       simp
  finally show ?thesis
    by simp
qed

lemma Clean_home_config:
  "Clean ''/home/alice//.config/linux-wave/config.yaml'' =
     ''/home/alice/.config/linux-wave/config.yaml''"
  by (simp add: Clean_def)

lemma Clean_home_FOO:
  "Clean ''/home/alice//$FOO/sounds'' = ''/home/alice/$FOO/sounds''"
  by (simp add: Clean_def)

text \<open>
  Claim C7. With home directory \<^verbatim>\<open>/home/alice\<close>, \<open>expandPath\<close> resolves
  \<^verbatim>\<open>~/.config/linux-wave/config.yaml\<close> to
  \<^verbatim>\<open>/home/alice/.config/linux-wave/config.yaml\<close>. When \<^verbatim>\<open>FOO\<close> is unset, a path
  \<open>pre @ ''$FOO'' @ post\<close> in which \<^verbatim>\<open>$FOO\<close> is a reference to \<^verbatim>\<open>FOO\<close> (no dollar
  sign before it, and after it the path stops or goes on with a byte that cannot be part
  of a name) and which does not start with a tilde resolves without error: the
  reference is replaced by the empty string and the rest is expanded, so a path with no
  other dollar sign resolves to the same path with \<^verbatim>\<open>$FOO\<close> removed. The last part
  is the same for a reference in a path under the home directory.
\<close>

theorem expandPath_tilde_and_unset_variable:
  "(UserHomeDir w = Inr ''/home/alice'' \<longrightarrow>
      expandPath w ''~/.config/linux-wave/config.yaml'' =
        Inr ''/home/alice/.config/linux-wave/config.yaml'')
   \<and> (LookupEnv w ''FOO'' = None \<and> \<not> HasPrefix pre ''~''
        \<and> CHR ''$'' \<notin> set pre
        \<and> (post = [] \<or> \<not> isAlphaNum (hd post)) \<longrightarrow>
      expandPath w (pre @ ''$FOO'' @ post) = Inr (pre @ ExpandEnv w post)
      \<and> (CHR ''$'' \<notin> set post \<longrightarrow>
           expandPath w (pre @ ''$FOO'' @ post) = Inr (pre @ post)))
   \<and> (UserHomeDir w = Inr ''/home/alice'' \<and> LookupEnv w ''FOO'' = None \<longrightarrow>
      expandPath w ''~/$FOO/sounds'' = Inr ''/home/alice//sounds'')"
proof -
  have tilde: "UserHomeDir w = Inr ''/home/alice'' \<longrightarrow>
      expandPath w ''~/.config/linux-wave/config.yaml'' =
        Inr ''/home/alice/.config/linux-wave/config.yaml''"
    by (simp add: expandPath_def HasPrefix_def ExpandEnv_def Clean_home_config
        Expand_no_dollar)
  have reference: "LookupEnv w ''FOO'' = None \<and> \<not> HasPrefix pre ''~''
        \<and> CHR ''$'' \<notin> set pre
        \<and> (post = [] \<or> \<not> isAlphaNum (hd post)) \<longrightarrow>
      expandPath w (pre @ ''$FOO'' @ post) = Inr (pre @ ExpandEnv w post)
      \<and> (CHR ''$'' \<notin> set post \<longrightarrow>
           expandPath w (pre @ ''$FOO'' @ post) = Inr (pre @ post))"
  proof
    assume a: "LookupEnv w ''FOO'' = None \<and> \<not> HasPrefix pre ''~''
        \<and> CHR ''$'' \<notin> set pre
        \<and> (post = [] \<or> \<not> isAlphaNum (hd post))"
    then have unset: "Getenv w ''FOO'' = []"
      by (simp add: Getenv_def)
    from a have pre: "CHR ''$'' \<notin> set pre"
      and stop: "post = [] \<or> \<not> isAlphaNum (hd post)"
      by simp_all
    from a have "\<not> HasPrefix (pre @ ''$FOO'' @ post) ''~''"
      by (cases pre) (simp_all add: HasPrefix_def)
    then have "expandPath w (pre @ ''$FOO'' @ post) =
                 Inr (Expand (Getenv w) (pre @ ''$FOO'' @ post))"
      by (simp add: expandPath_def ExpandEnv_def)
    also have "Expand (Getenv w) (pre @ ''$FOO'' @ post) =
                 pre @ Expand (Getenv w) (''$FOO'' @ post)"
      by (rule Expand_plain_prefix [OF pre])
    also have "Expand (Getenv w) (''$FOO'' @ post) =
                 Getenv w ''FOO'' @ Expand (Getenv w) post"
      by (rule Expand_FOO [OF stop])
    finally have general:
      "expandPath w (pre @ ''$FOO'' @ post) = Inr (pre @ ExpandEnv w post)"
      by (simp add: unset ExpandEnv_def)
    have "expandPath w (pre @ ''$FOO'' @ post) = Inr (pre @ post)"
      if "CHR ''$'' \<notin> set post"
      using general Expand_no_dollar [OF that] by (simp add: ExpandEnv_def)
    with general
    show "expandPath w (pre @ ''$FOO'' @ post) = Inr (pre @ ExpandEnv w post)
      \<and> (CHR ''$'' \<notin> set post \<longrightarrow>
           expandPath w (pre @ ''$FOO'' @ post) = Inr (pre @ post))"
      by simp
  qed
  have under_home: "UserHomeDir w = Inr ''/home/alice'' \<and> LookupEnv w ''FOO'' = None \<longrightarrow>
      expandPath w ''~/$FOO/sounds'' = Inr ''/home/alice//sounds''"
  proof
    assume a: "UserHomeDir w = Inr ''/home/alice'' \<and> LookupEnv w ''FOO'' = None"
    then have unset: "Getenv w ''FOO'' = []"
      by (simp add: Getenv_def)
    have "Expand (Getenv w) (''/home/alice/'' @ ''$FOO'' @ ''/sounds'') =
            ''/home/alice/'' @ Expand (Getenv w) (''$FOO'' @ ''/sounds'')"
      by (rule Expand_plain_prefix) simp
    also have "Expand (Getenv w) (''$FOO'' @ ''/sounds'') =
                 Getenv w ''FOO'' @ Expand (Getenv w) ''/sounds''"
      by (rule Expand_FOO) (simp add: isAlphaNum_def)
    also have "Expand (Getenv w) ''/sounds'' = ''/sounds''"
      by (rule Expand_no_dollar) simp
    finally have "Expand (Getenv w) ''/home/alice/$FOO/sounds'' = ''/home/alice//sounds''"
      by (simp del: Expand.simps add: unset)
    with a show "expandPath w ''~/$FOO/sounds'' = Inr ''/home/alice//sounds''"
      by (simp del: Expand.simps
          add: expandPath_def HasPrefix_def ExpandEnv_def Clean_home_FOO)
  qed
  show ?thesis
    by (rule conjI [OF tilde conjI [OF reference under_home]])
qed

theorem expandPath_tilde_and_unset_variable_witness:
  "UserHomeDir bare_host = Inr ''/home/alice''
   \<and> LookupEnv bare_host ''FOO'' = None
   \<and> expandPath bare_host ''~/.config/linux-wave/config.yaml'' =
       Inr ''/home/alice/.config/linux-wave/config.yaml''
   \<and> expandPath bare_host ''/opt/$FOO/sounds'' = Inr ''/opt//sounds''
   \<and> expandPath bare_host ''~/$FOO/sounds'' = Inr ''/home/alice//sounds''"
proof -
  have h: "UserHomeDir bare_host = Inr ''/home/alice''"
    and u: "LookupEnv bare_host ''FOO'' = None"
    by (simp_all add: bare_host_def)
  have p: "\<not> HasPrefix ''/opt/'' ''~'' \<and> CHR ''$'' \<notin> set ''/opt/''
           \<and> (''/sounds'' = [] \<or> \<not> isAlphaNum (hd ''/sounds''))"
    and q: "CHR ''$'' \<notin> set ''/sounds''"
    by (simp_all add: HasPrefix_def isAlphaNum_def)
  from expandPath_tilde_and_unset_variable [of bare_host "''/opt/''" "''/sounds''"] h u p q
  show ?thesis
    by (simp add: ExpandEnv_def)
qed

section \<open>Properties of the defaults and the loaders\<close>

text \<open>
  Claim C2 (the code departs from it). \<open>DefaultConfig\<close> has the baseline values of the
  glossary in every field but one: its log format is \<^verbatim>\<open>test\<close>, not \<^verbatim>\<open>text\<close>.
\<close>

theorem DefaultConfig_values:
  "Timeout (Service DefaultConfig) = 10
   \<and> RetryAttempts (Service DefaultConfig) = 3
   \<and> SocketPath (Service DefaultConfig) = ''/run/linux-wave/auth.sock''
   \<and> Level (Logging DefaultConfig) = ''INFO''
   \<and> Format (Logging DefaultConfig) = ''test''
   \<and> Format (Logging DefaultConfig) \<noteq> ''text''
   \<and> Enabled (Audio DefaultConfig) = True
   \<and> Volume (Audio DefaultConfig) = 50
   \<and> CustomSoundSuccess (Audio DefaultConfig) = []
   \<and> CustomSoundFailure (Audio DefaultConfig) = []
   \<and> LivenessRequired (Security DefaultConfig) = True
   \<and> MatchThreshold (Security DefaultConfig) = f64_0_85
   \<and> MaxAuthAttempts (Security DefaultConfig) = 3
   \<and> LockoutDuration (Security DefaultConfig) = 300"
  by (simp add: DefaultConfig_def)

lemma user_config_path:
  "filepath_Join [''~'', userConfigRelPath] = ''~/.config/linux-wave/config.yaml''"
  by (simp add: userConfigRelPath_def Clean_def)

text \<open>
  Claim C3 (the code departs from it). When neither the system file nor the user file
  exists, \<open>Load\<close> validates \<open>DefaultConfig\<close> as it is, and so returns the validation
  error for the log format instead of the defaults.
\<close>

theorem Load_without_files_fails:
  assumes "\<not> Stat w systemConfigPath"
    and "expandPath w (filepath_Join [''~'', userConfigRelPath]) = Inr userConfigPath"
    and "\<not> Stat w userConfigPath"
  shows "Load w = Inl (Errorf ''configuration validation failed: '' (Join [err_log_format]))"
  using assms by (simp add: Load_def load_system_def load_user_def Validate_default)

theorem Load_without_files_fails_witness:
  "\<not> Stat bare_host systemConfigPath
   \<and> expandPath bare_host (filepath_Join [''~'', userConfigRelPath]) =
       Inr ''/home/alice/.config/linux-wave/config.yaml''
   \<and> \<not> Stat bare_host ''/home/alice/.config/linux-wave/config.yaml''
   \<and> Load bare_host =
       Inl (Errorf ''configuration validation failed: '' (Join [err_log_format]))"
proof -
  have s: "\<not> Stat bare_host systemConfigPath"
    and u: "\<not> Stat bare_host ''/home/alice/.config/linux-wave/config.yaml''"
    by (simp_all add: bare_host_def)
  have "UserHomeDir bare_host = Inr ''/home/alice''"
    by (simp add: bare_host_def)
  then have p: "expandPath bare_host (filepath_Join [''~'', userConfigRelPath]) =
                  Inr ''/home/alice/.config/linux-wave/config.yaml''"
    unfolding user_config_path
    by (simp add: expandPath_def HasPrefix_def ExpandEnv_def Clean_home_config
        Expand_no_dollar)
  from Load_without_files_fails [OF s p u] s p u show ?thesis
    by simp
qed

lemma threshold_1_5_not_negative: "\<not> f64_lt f64_1_5 f64_0"
  by (simp add: f64_lt_def f64_isNaN_def f64_mag_def f64_neg_def f64_0_def f64_1_5_def)

lemma Validate_default_threshold_1_5:
  "Validate w (DefaultConfig\<lparr>Security := (Security DefaultConfig)\<lparr>MatchThreshold := f64_1_5\<rparr>\<rparr>)
     = Some (Join [err_log_format, err_match_threshold])"
  by (simp add: Validate_violations violations_def DefaultConfig_def eval_checks
      threshold_1_5_not_negative)

text \<open>
  Claim C6 (the code departs from it). \<open>LoadFromPath\<close> on a file that sets only
  \<^verbatim>\<open>security.match_threshold\<close> to 1.5 returns a validation error that names
  \<^verbatim>\<open>log_format\<close> before \<^verbatim>\<open>match_threshold\<close>: the file is decoded over
  \<open>DefaultConfig\<close>, whose log format is already invalid.
\<close>

theorem LoadFromPath_threshold_also_names_log_format:
  assumes "expandPath w path = Inr expandedPath"
    and "ReadFile w expandedPath = Inr data"
    and "Unmarshal w data DefaultConfig =
           Inr (DefaultConfig\<lparr>Security := (Security DefaultConfig)\<lparr>MatchThreshold := f64_1_5\<rparr>\<rparr>)"
  shows "LoadFromPath w path =
           Inl (Errorf ''configuration validation failed: ''
                  (Join [err_log_format, err_match_threshold]))
         \<and> Error (Errorf ''configuration validation failed: ''
                    (Join [err_log_format, err_match_threshold])) =
             ''configuration validation failed: log_format must be 'json' or 'text''
             @ [CHR 0x27, CHR 0x0A] @ ''match_threshold must be between 0.0 and 1.0''"
  using assms
  by (simp add: LoadFromPath_def loadFromPath_def Validate_default_threshold_1_5
      err_log_format_def err_match_threshold_def)

theorem LoadFromPath_threshold_also_names_log_format_witness:
  "expandPath threshold_host ''/srv/threshold.yaml'' = Inr ''/srv/threshold.yaml''
   \<and> ReadFile threshold_host ''/srv/threshold.yaml'' = Inr threshold_yaml
   \<and> Unmarshal threshold_host threshold_yaml DefaultConfig =
       Inr (DefaultConfig\<lparr>Security := (Security DefaultConfig)\<lparr>MatchThreshold := f64_1_5\<rparr>\<rparr>)
   \<and> LoadFromPath threshold_host ''/srv/threshold.yaml'' =
       Inl (Errorf ''configuration validation failed: ''
              (Join [err_log_format, err_match_threshold]))"
proof -
  have e: "expandPath threshold_host ''/srv/threshold.yaml'' = Inr ''/srv/threshold.yaml''"
    by (simp add: expandPath_def HasPrefix_def ExpandEnv_def Expand_no_dollar)
  have r: "ReadFile threshold_host ''/srv/threshold.yaml'' = Inr threshold_yaml"
    by (simp add: threshold_host_def)
  have d: "Unmarshal threshold_host threshold_yaml DefaultConfig =
             Inr (DefaultConfig\<lparr>Security := (Security DefaultConfig)\<lparr>MatchThreshold := f64_1_5\<rparr>\<rparr>)"
    by (simp add: threshold_host_def)
  from LoadFromPath_threshold_also_names_log_format [OF e r d] e r d show ?thesis
    by simp
qed

end
